theory Spec2Isabelle
  imports Complex_Main
begin

section \<open>The PXI 6733 driver (artiq/devices/pxi6733/driver.py)\<close>

text \<open>
  The driver is a Python class \<open>DAQmx\<close> that sequences calls to the vendor library
  (PyDAQmx) around one attribute, \<open>self.task\<close>, and a stand-in class \<open>DAQmxSim\<close>.
  The embedding keeps what the Python does step by step:
  \<^item> an instance is its attribute dictionary, a map from attribute names to values, so
    that reading an attribute nobody assigned raises \<open>AttributeError\<close>;
  \<^item> every call the driver issues to the library is appended to a trace, whether the
    call returns or raises;
  \<^item> what the library answers is a parameter (the record \<open>daq\<close>): each operation
    either returns its result or raises;
  \<^item> a method is a function from the state to a result, \<open>Inl\<close> for a raised exception,
    paired with the state the method leaves behind.
\<close>

subsection \<open>Values, exceptions, library calls\<close>

text \<open>
  The values the driver handles. \<open>PyHandle t\<close> is the ctypes object \<open>t.taskHandle\<close> of
  the task \<open>t\<close> that \<open>self.daq.Task()\<close> created at line 87: line 118 stores this object
  in \<open>self.task\<close> and lines 96 and 126 pass it to \<open>DAQmxClearTask\<close>. \<open>PyInt n\<close> is a
  Python \<open>int\<close>; the callback pointer built at line 117 converts the task handle the
  library passes to one before it calls \<open>done_callback_py\<close>.
\<close>

type_synonym handle = nat

datatype pyval =
    PyNone
  | PyStr string
  | PyBytes string
  | PyInt int
  | PyHandle handle
  | PyModule

text \<open>
  The exceptions of the driver. Python raises \<open>ValueError\<close> at line 21
  (\<open>InvalidConfigValue\<close>) and at line 97 (\<open>InvalidBufferSize\<close>, with the channel count
  of the message), \<open>IOError\<close> at line 112 (\<open>IncompleteWrite\<close>, with the number of samples
  the message reports) and at line 115 (\<open>WriteFailed\<close>). \<open>EmptySequence\<close> is the
  \<open>ValueError\<close> of \<open>min()\<close> and \<open>max()\<close> on an empty sequence, \<open>DAQError\<close> is an
  error raised by the library.
\<close>

datatype error =
    InvalidConfigValue string
  | UnicodeEncodeError
  | ImportError
  | AttributeError string
  | EmptySequence
  | ZeroDivisionError
  | TypeError
  | InvalidBufferSize int
  | IncompleteWrite int
  | WriteFailed
  | DAQError int

datatype hwcall =
    C_Task
  | C_CreateAOVoltageChan handle pyval real real
  | C_GetTaskNumChans handle
  | C_ClearTask pyval
  | C_CfgSampClkTiming handle pyval real int
  | C_WriteAnalogF64 handle int "real list"
  | C_RegisterDoneEvent handle
  | C_StartTask handle
  | C_GetDevSerialNum pyval

text \<open>
  The library as the driver sees it. \<open>Task\<close> answers with the handle of the task it
  created, \<open>GetTaskNumChans\<close> with the value it stores in the \<open>int32\<close> passed by
  reference, \<open>WriteAnalogF64\<close> with its return value and the value it stores in
  \<open>num_samps_written\<close>.

  \<open>int32_rfloordiv\<close> is the reflected floor division of the library's \<open>int32\<close> type:
  line 100 divides by the \<open>int32\<close> object itself, not by its \<open>.value\<close>, and Python
  evaluates \<open>int // obj\<close> with the reflected method of the type of \<open>obj\<close>, raising
  \<open>TypeError\<close> when the type has none (\<open>None\<close> here).
\<close>

record daq =
  Task :: "error + handle"
  CreateAOVoltageChan :: "handle \<Rightarrow> pyval \<Rightarrow> real \<Rightarrow> real \<Rightarrow> error + unit"
  GetTaskNumChans :: "handle \<Rightarrow> error + int"
  DAQmxClearTask :: "pyval \<Rightarrow> error + unit"
  CfgSampClkTiming :: "handle \<Rightarrow> pyval \<Rightarrow> real \<Rightarrow> int \<Rightarrow> error + unit"
  WriteAnalogF64 :: "handle \<Rightarrow> int \<Rightarrow> real list \<Rightarrow> error + (int \<times> int)"
  DAQmxRegisterDoneEvent :: "handle \<Rightarrow> error + unit"
  StartTask :: "handle \<Rightarrow> error + unit"
  DAQmxGetDevSerialNum :: "pyval \<Rightarrow> error + unit"
  int32_rfloordiv :: "(int \<Rightarrow> int \<Rightarrow> error + int) option"

record world =
  self :: "string \<rightharpoonup> pyval"
  trace :: "hwcall list"

type_synonym 'a prog = "world \<Rightarrow> (error + 'a) \<times> world"

definition ok :: "'a \<Rightarrow> 'a prog" where
  "ok x = (\<lambda>s. (Inr x, s))"

definition raise :: "error \<Rightarrow> 'a prog" where
  "raise e = (\<lambda>s. (Inl e, s))"

definition bindE :: "'a prog \<Rightarrow> ('a \<Rightarrow> 'b prog) \<Rightarrow> 'b prog" where
  "bindE m f = (\<lambda>s. case m s of (Inl e, s') \<Rightarrow> (Inl e, s') | (Inr x, s') \<Rightarrow> f x s')"

definition lift :: "error + 'a \<Rightarrow> 'a prog" where
  "lift r = (\<lambda>s. (r, s))"

definition getattr :: "string \<Rightarrow> pyval prog" where
  "getattr name = (\<lambda>s. case self s name of
                          None \<Rightarrow> (Inl (AttributeError name), s)
                        | Some v \<Rightarrow> (Inr v, s))"

definition setattr :: "string \<Rightarrow> pyval \<Rightarrow> unit prog" where
  "setattr name v = (\<lambda>s. (Inr (), s\<lparr>self := (self s)(name \<mapsto> v)\<rparr>))"

definition call :: "hwcall \<Rightarrow> error + 'a \<Rightarrow> 'a prog" where
  "call c answer = (\<lambda>s. (answer, s\<lparr>trace := trace s @ [c]\<rparr>))"

subsection \<open>Python built-ins the driver uses\<close>

definition py_min :: "real list \<Rightarrow> error + real" where
  "py_min xs = (case xs of [] \<Rightarrow> Inl EmptySequence | x # ys \<Rightarrow> Inr (fold min ys x))"

definition py_max :: "real list \<Rightarrow> error + real" where
  "py_max xs = (case xs of [] \<Rightarrow> Inl EmptySequence | x # ys \<Rightarrow> Inr (fold max ys x))"

definition py_mod :: "int \<Rightarrow> int \<Rightarrow> error + int" where
  "py_mod a b = (if b = 0 then Inl ZeroDivisionError else Inr (a mod b))"

definition int_floordiv_int32 ::
  "(int \<Rightarrow> int \<Rightarrow> error + int) option \<Rightarrow> int \<Rightarrow> int \<Rightarrow> error + int" where
  "int_floordiv_int32 rfloordiv a b =
     (case rfloordiv of None \<Rightarrow> Inl TypeError | Some f \<Rightarrow> f b a)"

text \<open>
  Python's \<open>==\<close> on these values. \<open>None\<close>, \<open>str\<close>, \<open>bytes\<close> and \<open>int\<close> compare by
  value, never equal across types. A ctypes object defines no \<open>__eq__\<close>: it is equal to
  itself and to nothing else, so an \<open>int\<close> is never equal to a task handle object,
  whatever number the object holds.
\<close>

fun py_eq :: "pyval \<Rightarrow> pyval \<Rightarrow> bool" where
  "py_eq PyNone PyNone = True"
| "py_eq (PyStr a) (PyStr b) = (a = b)"
| "py_eq (PyBytes a) (PyBytes b) = (a = b)"
| "py_eq (PyInt m) (PyInt n) = (m = n)"
| "py_eq (PyHandle t) (PyHandle t') = (t = t')"
| "py_eq PyModule PyModule = True"
| "py_eq _ _ = False"

definition bind_positional :: "nat \<Rightarrow> 'a list \<Rightarrow> error + 'a list" where
  "bind_positional n args = (if length args = n then Inr args else Inl TypeError)"

subsection \<open>DAQmxSim (lines 7-15)\<close>

text \<open>
  The stand-in has no attributes and calls nothing; what is left of a method is its
  parameter list and its return value. A method is called with the positional arguments
  that follow \<open>self\<close>; Python raises \<open>TypeError\<close> when their number is not the number of
  parameters.
\<close>

datatype pyarg = ArgNum real | ArgSeq "real list"

datatype pyresult = RNone | RBool bool

definition DAQmxSim_load_sample_values :: "pyarg list \<Rightarrow> error + pyresult" where
  "DAQmxSim_load_sample_values args =
     (case bind_positional 1 args of Inl e \<Rightarrow> Inl e | Inr _ \<Rightarrow> Inr RNone)"

definition DAQmxSim_close :: "pyarg list \<Rightarrow> error + pyresult" where
  "DAQmxSim_close args =
     (case bind_positional 0 args of Inl e \<Rightarrow> Inl e | Inr _ \<Rightarrow> Inr RNone)"

definition DAQmxSim_ping :: "pyarg list \<Rightarrow> error + pyresult" where
  "DAQmxSim_ping args =
     (case bind_positional 0 args of Inl e \<Rightarrow> Inl e | Inr _ \<Rightarrow> Inr (RBool True))"

subsection \<open>string_to_bytes and the constructor (lines 17-44)\<close>

definition string_to_bytes :: "pyval \<Rightarrow> string \<Rightarrow> error + pyval" where
  "string_to_bytes string name =
     (case string of
        PyStr s \<Rightarrow> (if list_all (\<lambda>c. (of_char c :: nat) < 128) s
                    then Inr (PyBytes s) else Inl UnicodeEncodeError)
      | PyBytes b \<Rightarrow> Inr (PyBytes b)
      | _ \<Rightarrow> Inl (InvalidConfigValue name))"

definition DAQmx_init :: "bool \<Rightarrow> pyval \<Rightarrow> pyval \<Rightarrow> error + world" where
  "DAQmx_init importable channels clock =
     (if \<not> importable then Inl ImportError
      else case string_to_bytes channels ''channels'' of
        Inl e \<Rightarrow> Inl e
      | Inr ch \<Rightarrow>
          (case string_to_bytes clock ''clock'' of
             Inl e \<Rightarrow> Inl e
           | Inr ck \<Rightarrow>
               Inr \<lparr>self = [''channels'' \<mapsto> ch, ''clock'' \<mapsto> ck,
                            ''task'' \<mapsto> PyNone, ''daq'' \<mapsto> PyModule],
                    trace = []\<rparr>))"

subsection \<open>clear_pending_task, close, done_callback_py, ping\<close>

definition clear_pending_task :: "daq \<Rightarrow> unit prog" where
  "clear_pending_task d =
     bindE (getattr ''task'') (\<lambda>task.
       if task \<noteq> PyNone then
         bindE (getattr ''daq'') (\<lambda>_.
         bindE (getattr ''task'') (\<lambda>task'.
         bindE (call (C_ClearTask task') (DAQmxClearTask d task')) (\<lambda>_.
         setattr ''task'' PyNone)))
       else ok ())"

definition close :: "daq \<Rightarrow> unit prog" where
  "close d = clear_pending_task d"

definition done_callback_py :: "daq \<Rightarrow> pyval \<Rightarrow> int \<Rightarrow> pyval \<Rightarrow> unit prog" where
  "done_callback_py d taskhandle status callback_data =
     bindE (getattr ''task'') (\<lambda>task.
       if py_eq taskhandle task then clear_pending_task d else ok ())"

text \<open>
  \<open>delivered t\<close> is the first argument \<open>done_callback_py\<close> receives when the library
  signals the end of the task \<open>t\<close> through the callback pointer of line 117: the handle
  as a Python \<open>int\<close>.
\<close>

definition delivered :: "handle \<Rightarrow> pyval" where
  "delivered t = PyInt (int t)"

definition ping_query :: "daq \<Rightarrow> unit prog" where
  "ping_query d =
     bindE (getattr ''daq'') (\<lambda>_.
     bindE (getattr ''device'') (\<lambda>device.
     call (C_GetDevSerialNum device) (DAQmxGetDevSerialNum d device)))"

definition ping :: "daq \<Rightarrow> bool prog" where
  "ping d = (\<lambda>s. case ping_query d s of
                    (Inl e, s') \<Rightarrow> (Inr False, s')
                  | (Inr _, s') \<Rightarrow> (Inr True, s'))"

subsection \<open>load_sample_values (lines 58-120)\<close>

definition load_sample_values :: "daq \<Rightarrow> real \<Rightarrow> real list \<Rightarrow> unit prog" where
  "load_sample_values d sampling_freq values =
     bindE (clear_pending_task d) (\<lambda>_.
     bindE (getattr ''daq'') (\<lambda>_.
     bindE (call C_Task (Task d)) (\<lambda>t.
     bindE (getattr ''channels'') (\<lambda>channels.
     bindE (lift (py_min values)) (\<lambda>lo.
     bindE (lift (py_max values)) (\<lambda>hi.
     bindE (getattr ''daq'') (\<lambda>_.
     bindE (call (C_CreateAOVoltageChan t channels lo hi)
                 (CreateAOVoltageChan d t channels lo hi)) (\<lambda>_.
     bindE (getattr ''daq'') (\<lambda>_.
     bindE (call (C_GetTaskNumChans t) (GetTaskNumChans d t)) (\<lambda>channel_number.
     let nb_values = int (length values) in
     bindE (lift (py_mod nb_values channel_number)) (\<lambda>r.
       if r > 0 then
         bindE (getattr ''daq'') (\<lambda>_.
         bindE (call (C_ClearTask (PyHandle t)) (DAQmxClearTask d (PyHandle t))) (\<lambda>_.
         raise (InvalidBufferSize channel_number)))
       else
         bindE (lift (int_floordiv_int32 (int32_rfloordiv d) nb_values channel_number))
           (\<lambda>samps_per_channel.
         bindE (getattr ''clock'') (\<lambda>clock.
         bindE (getattr ''daq'') (\<lambda>_.
         bindE (getattr ''daq'') (\<lambda>_.
         bindE (call (C_CfgSampClkTiming t clock sampling_freq samps_per_channel)
                     (CfgSampClkTiming d t clock sampling_freq samps_per_channel)) (\<lambda>_.
         bindE (getattr ''daq'') (\<lambda>_.
         bindE (getattr ''daq'') (\<lambda>_.
         bindE (call (C_WriteAnalogF64 t samps_per_channel values)
                     (WriteAnalogF64 d t samps_per_channel values))
           (\<lambda>(ret, num_samps_written).
             if num_samps_written \<noteq> nb_values then raise (IncompleteWrite num_samps_written)
             else if ret \<noteq> 0 then raise WriteFailed
             else
               bindE (getattr ''daq'') (\<lambda>_.
               bindE (setattr ''task'' (PyHandle t)) (\<lambda>_.
               bindE (getattr ''daq'') (\<lambda>_.
               bindE (call (C_RegisterDoneEvent t) (DAQmxRegisterDoneEvent d t)) (\<lambda>_.
               call (C_StartTask t) (StartTask d t))))))))))))))))))))))))"

subsection \<open>Libraries and instances for evaluation\<close>

text \<open>
  \<open>PyDAQmx t k\<close> is the vendor library on a working device: every call returns normally,
  \<open>Task()\<close> creates the task with handle \<open>t\<close>, the channel descriptor resolves to \<open>k\<close>
  channels and a write reports every sample written. Its \<open>int32\<close> is a ctypes integer
  (the driver passes it to \<open>ctypes.byref\<close> and reads its \<open>.value\<close>), and a ctypes
  integer implements no arithmetic: \<open>int32_rfloordiv\<close> is \<open>None\<close>.

  \<open>daq_with_floordiv t k\<close> is the same library with an \<open>int32\<close> that does implement the
  reflected floor division, on the value it holds: the library with which line 100 returns.
  It serves to state what lines 102-120 do.
\<close>

definition py_floordiv :: "int \<Rightarrow> int \<Rightarrow> error + int" where
  "py_floordiv a b = (if b = 0 then Inl ZeroDivisionError else Inr (a div b))"

definition PyDAQmx :: "handle \<Rightarrow> int \<Rightarrow> daq" where
  "PyDAQmx t k =
     \<lparr>Task = Inr t,
      CreateAOVoltageChan = (\<lambda>_ _ _ _. Inr ()),
      GetTaskNumChans = (\<lambda>_. Inr k),
      DAQmxClearTask = (\<lambda>_. Inr ()),
      CfgSampClkTiming = (\<lambda>_ _ _ _. Inr ()),
      WriteAnalogF64 = (\<lambda>_ _ vs. Inr (0, int (length vs))),
      DAQmxRegisterDoneEvent = (\<lambda>_. Inr ()),
      StartTask = (\<lambda>_. Inr ()),
      DAQmxGetDevSerialNum = (\<lambda>_. Inr ()),
      int32_rfloordiv = None\<rparr>"

definition daq_with_floordiv :: "handle \<Rightarrow> int \<Rightarrow> daq" where
  "daq_with_floordiv t k =
     (PyDAQmx t k)\<lparr>int32_rfloordiv := Some (\<lambda>held other. py_floordiv other held)\<rparr>"

text \<open>
  \<open>fresh channels\<close> is the instance \<open>DAQmx(channels, "PFI5")\<close> as the constructor leaves
  it; \<open>armed h\<close> is an instance whose \<open>self.task\<close> holds the handle object of the task
  \<open>h\<close>, as line 118 stores it.
\<close>

definition fresh :: "string \<Rightarrow> world" where
  "fresh channels =
     \<lparr>self = [''channels'' \<mapsto> PyBytes channels, ''clock'' \<mapsto> PyBytes ''PFI5'',
              ''task'' \<mapsto> PyNone, ''daq'' \<mapsto> PyModule],
      trace = []\<rparr>"

definition armed :: "handle \<Rightarrow> world" where
  "armed h =
     \<lparr>self = [''channels'' \<mapsto> PyBytes ''Dev1/ao0:1'', ''clock'' \<mapsto> PyBytes ''PFI5'',
              ''task'' \<mapsto> PyHandle h, ''daq'' \<mapsto> PyModule],
      trace = []\<rparr>"

subsection \<open>Instances of the class\<close>

text \<open>
  \<open>is_instance\<close> holds of a state that has the four attributes the constructor assigns,
  with the kinds of value the methods store in them. \<open>reachable\<close> is the set of states
  an instance goes through: the constructor returns it, then any method is called on it,
  with any arguments, the library answering in any way.
\<close>

definition is_instance :: "world \<Rightarrow> bool" where
  "is_instance s =
     (self s ''daq'' = Some PyModule \<and>
      (case self s ''channels'' of Some (PyBytes _) \<Rightarrow> True | _ \<Rightarrow> False) \<and>
      (case self s ''clock'' of Some (PyBytes _) \<Rightarrow> True | _ \<Rightarrow> False) \<and>
      (case self s ''task'' of Some PyNone \<Rightarrow> True | Some (PyHandle _) \<Rightarrow> True | _ \<Rightarrow> False))"

inductive reachable :: "world \<Rightarrow> bool" where
  r_init: "DAQmx_init importable channels clock = Inr s \<Longrightarrow> reachable s"
| r_load: "reachable s \<Longrightarrow> reachable (snd (load_sample_values d sampling_freq values s))"
| r_clear: "reachable s \<Longrightarrow> reachable (snd (clear_pending_task d s))"
| r_close: "reachable s \<Longrightarrow> reachable (snd (close d s))"
| r_done: "reachable s \<Longrightarrow>
     reachable (snd (done_callback_py d taskhandle status callback_data s))"
| r_ping: "reachable s \<Longrightarrow> reachable (snd (ping d s))"

text \<open>
  \<open>reachable_real\<close> is the same with the library's \<open>int32\<close> as PyDAQmx has it, a ctypes
  integer, in every call of \<open>load_sample_values\<close>; the answers of the library stay
  arbitrary.
\<close>

inductive reachable_real :: "world \<Rightarrow> bool" where
  rr_init: "DAQmx_init importable channels clock = Inr s \<Longrightarrow> reachable_real s"
| rr_load: "reachable_real s \<Longrightarrow> int32_rfloordiv d = None \<Longrightarrow>
     reachable_real (snd (load_sample_values d sampling_freq values s))"
| rr_clear: "reachable_real s \<Longrightarrow> reachable_real (snd (clear_pending_task d s))"
| rr_close: "reachable_real s \<Longrightarrow> reachable_real (snd (close d s))"
| rr_done: "reachable_real s \<Longrightarrow>
     reachable_real (snd (done_callback_py d taskhandle status callback_data s))"
| rr_ping: "reachable_real s \<Longrightarrow> reachable_real (snd (ping d s))"

subsection \<open>Properties of a method\<close>

text \<open>
  \<open>preserves P m\<close>: the method keeps \<open>P\<close>, whether it returns or raises.
  \<open>wp m Q E s\<close>: run from \<open>s\<close>, the method either returns \<open>x\<close> in a state with \<open>Q x\<close>
  or raises \<open>e\<close> in a state with \<open>E e\<close>.
\<close>

definition preserves :: "(world \<Rightarrow> bool) \<Rightarrow> 'a prog \<Rightarrow> bool" where
  "preserves P m = (\<forall>s. P s \<longrightarrow> P (snd (m s)))"

definition wp ::
  "'a prog \<Rightarrow> ('a \<Rightarrow> world \<Rightarrow> bool) \<Rightarrow> (error \<Rightarrow> world \<Rightarrow> bool) \<Rightarrow> world \<Rightarrow> bool" where
  "wp m Q E s = (case m s of (Inl e, s') \<Rightarrow> E e s' | (Inr x, s') \<Rightarrow> Q x s')"

section \<open>Lemmas\<close>

lemmas prog_defs = ok_def raise_def bindE_def lift_def getattr_def setattr_def call_def

lemmas eval_defs = load_sample_values_def clear_pending_task_def done_callback_py_def prog_defs
  py_min_def py_max_def py_mod_def int_floordiv_int32_def py_floordiv_def
  PyDAQmx_def daq_with_floordiv_def fresh_def armed_def delivered_def

lemma py_eq_iff: "py_eq a b \<longleftrightarrow> a = b"
  by (cases a; cases b) simp_all

subsection \<open>Invariants\<close>

lemma preserves_ok: "preserves P (ok x)"
  by (simp add: preserves_def ok_def)

lemma preserves_raise: "preserves P (raise e)"
  by (simp add: preserves_def raise_def)

lemma preserves_lift: "preserves P (lift r)"
  by (simp add: preserves_def lift_def)

lemma preserves_getattr: "preserves P (getattr name)"
  by (simp add: preserves_def getattr_def split: option.split)

lemma preserves_call:
  "(\<And>s. P s \<Longrightarrow> P (s\<lparr>trace := trace s @ [c]\<rparr>)) \<Longrightarrow> preserves P (call c answer)"
  by (simp add: preserves_def call_def)

lemma preserves_setattr:
  "(\<And>s. P s \<Longrightarrow> P (s\<lparr>self := (self s)(name \<mapsto> v)\<rparr>)) \<Longrightarrow> preserves P (setattr name v)"
  by (simp add: preserves_def setattr_def)

lemma preserves_bindE:
  "preserves P m \<Longrightarrow> (\<And>x. preserves P (f x)) \<Longrightarrow> preserves P (bindE m f)"
  by (auto simp: preserves_def bindE_def split: prod.split sum.split)

lemma preserves_if:
  "preserves P a \<Longrightarrow> preserves P b \<Longrightarrow> preserves P (if c then a else b)"
  by simp

lemma preserves_case_prod:
  "(\<And>a b. preserves P (f a b)) \<Longrightarrow> preserves P (case p of (a, b) \<Rightarrow> f a b)"
  by (cases p) simp

lemmas preserves_intros =
  preserves_bindE preserves_if preserves_case_prod preserves_ok preserves_raise
  preserves_lift preserves_getattr preserves_call preserves_setattr

text \<open>
  The methods write the trace and the attribute \<open>task\<close>, nothing else: they keep every
  property that these two writes keep.
\<close>

lemma clear_preserves:
  assumes "\<And>s c. P s \<Longrightarrow> P (s\<lparr>trace := trace s @ [c]\<rparr>)"
    and "\<And>s v. P s \<Longrightarrow> P (s\<lparr>self := (self s)(''task'' \<mapsto> v)\<rparr>)"
  shows "preserves P (clear_pending_task d)"
  unfolding clear_pending_task_def
  by (intro preserves_intros) (simp_all add: assms)

lemma load_preserves:
  assumes "\<And>s c. P s \<Longrightarrow> P (s\<lparr>trace := trace s @ [c]\<rparr>)"
    and "\<And>s v. P s \<Longrightarrow> P (s\<lparr>self := (self s)(''task'' \<mapsto> v)\<rparr>)"
  shows "preserves P (load_sample_values d f v)"
  unfolding load_sample_values_def Let_def
  by (intro preserves_intros clear_preserves) (simp_all add: assms)

lemma done_preserves:
  assumes "\<And>s c. P s \<Longrightarrow> P (s\<lparr>trace := trace s @ [c]\<rparr>)"
    and "\<And>s v. P s \<Longrightarrow> P (s\<lparr>self := (self s)(''task'' \<mapsto> v)\<rparr>)"
  shows "preserves P (done_callback_py d h st cb)"
  unfolding done_callback_py_def
  by (intro preserves_intros clear_preserves) (simp_all add: assms)

lemma ping_preserves:
  assumes "\<And>s c. P s \<Longrightarrow> P (s\<lparr>trace := trace s @ [c]\<rparr>)"
  shows "preserves P (ping d)"
proof -
  have "preserves P (ping_query d)"
    unfolding ping_query_def by (intro preserves_intros) (simp_all add: assms)
  then show ?thesis
    by (auto simp: preserves_def ping_def split: prod.split sum.split)
qed

lemma is_instance_trace [simp]: "is_instance (s\<lparr>trace := tr\<rparr>) = is_instance s"
  by (simp add: is_instance_def)

lemma is_instance_task_None:
  "is_instance s \<Longrightarrow> is_instance (s\<lparr>self := (self s)(''task'' \<mapsto> PyNone)\<rparr>)"
  by (simp add: is_instance_def)

lemma is_instance_task_handle:
  "is_instance s \<Longrightarrow> is_instance (s\<lparr>self := (self s)(''task'' \<mapsto> PyHandle t)\<rparr>)"
  by (simp add: is_instance_def)

lemma is_instanceD:
  assumes "is_instance s"
  obtains ch ck where "self s ''daq'' = Some PyModule"
    and "self s ''channels'' = Some (PyBytes ch)" and "self s ''clock'' = Some (PyBytes ck)"
  using assms by (auto simp: is_instance_def split: option.splits pyval.splits)

lemma clear_instance: "preserves is_instance (clear_pending_task d)"
  unfolding clear_pending_task_def
  by (intro preserves_intros) (simp_all add: is_instance_task_None)

lemma load_instance: "preserves is_instance (load_sample_values d f v)"
  unfolding load_sample_values_def Let_def
  by (intro preserves_intros clear_instance) (simp_all add: is_instance_task_handle)

lemma done_instance: "preserves is_instance (done_callback_py d h st cb)"
  unfolding done_callback_py_def
  by (intro preserves_intros clear_instance)

lemma init_instance: "DAQmx_init importable channels clock = Inr s \<Longrightarrow> is_instance s"
  by (auto simp: DAQmx_init_def string_to_bytes_def is_instance_def
           split: if_splits sum.splits pyval.splits)

lemma init_fresh: "DAQmx_init True (PyStr ''Dev1/ao0:1'') (PyStr ''PFI5'') = Inr (fresh ''Dev1/ao0:1'')"
  by (simp add: DAQmx_init_def string_to_bytes_def fresh_def)

lemma reachable_instance: "reachable s \<Longrightarrow> is_instance s"
proof (induction rule: reachable.induct)
  case (r_init importable channels clock s)
  then show ?case by (rule init_instance)
next
  case (r_load s d sampling_freq vs)
  then show ?case using load_instance by (simp add: preserves_def)
next
  case (r_clear s d)
  then show ?case using clear_instance by (simp add: preserves_def)
next
  case (r_close s d)
  then show ?case using clear_instance by (simp add: preserves_def close_def)
next
  case (r_done s d taskhandle status callback_data)
  then show ?case using done_instance by (simp add: preserves_def)
next
  case (r_ping s d)
  then show ?case using ping_preserves [of is_instance d] by (simp add: preserves_def)
qed

lemma init_no_device:
  "DAQmx_init importable channels clock = Inr s \<Longrightarrow> self s ''device'' = None"
  by (auto simp: DAQmx_init_def split: if_splits sum.splits)

lemma reachable_no_device: "reachable s \<Longrightarrow> self s ''device'' = None"
proof (induction rule: reachable.induct)
  case (r_init importable channels clock s)
  then show ?case by (rule init_no_device)
next
  case (r_load s d sampling_freq vs)
  then show ?case
    using load_preserves [of "\<lambda>s. self s ''device'' = None" d sampling_freq vs]
    by (simp add: preserves_def)
next
  case (r_clear s d)
  then show ?case
    using clear_preserves [of "\<lambda>s. self s ''device'' = None" d]
    by (simp add: preserves_def)
next
  case (r_close s d)
  then show ?case
    using clear_preserves [of "\<lambda>s. self s ''device'' = None" d]
    by (simp add: preserves_def close_def)
next
  case (r_done s d taskhandle status callback_data)
  then show ?case
    using done_preserves [of "\<lambda>s. self s ''device'' = None" d taskhandle status callback_data]
    by (simp add: preserves_def)
next
  case (r_ping s d)
  then show ?case
    using ping_preserves [of "\<lambda>s. self s ''device'' = None" d]
    by (simp add: preserves_def)
qed

subsection \<open>Outcomes of a method\<close>

lemma wp_ok: "wp (ok x) Q E s = Q x s"
  by (simp add: wp_def ok_def)

lemma wp_raise: "wp (raise e) Q E s = E e s"
  by (simp add: wp_def raise_def)

lemma wp_lift: "wp (lift r) Q E s = (case r of Inl e \<Rightarrow> E e s | Inr x \<Rightarrow> Q x s)"
  by (simp add: wp_def lift_def split: sum.split)

lemma wp_getattr:
  "wp (getattr name) Q E s =
     (case self s name of None \<Rightarrow> E (AttributeError name) s | Some v \<Rightarrow> Q v s)"
  by (simp add: wp_def getattr_def split: option.split)

lemma wp_setattr: "wp (setattr name v) Q E s = Q () (s\<lparr>self := (self s)(name \<mapsto> v)\<rparr>)"
  by (simp add: wp_def setattr_def)

lemma wp_call:
  "wp (call c answer) Q E s =
     (case answer of Inl e \<Rightarrow> E e (s\<lparr>trace := trace s @ [c]\<rparr>)
                   | Inr x \<Rightarrow> Q x (s\<lparr>trace := trace s @ [c]\<rparr>))"
  by (simp add: wp_def call_def split: sum.split)

lemma wp_bindE: "wp (bindE m f) Q E s = wp m (\<lambda>x. wp (f x) Q E) E s"
  by (simp add: wp_def bindE_def split: prod.split sum.split)

lemma wp_if: "wp (if c then a else b) Q E s = (if c then wp a Q E s else wp b Q E s)"
  by simp

lemma wp_case_prod:
  "wp (case p of (a, b) \<Rightarrow> f a b) Q E s = (case p of (a, b) \<Rightarrow> wp (f a b) Q E s)"
  by (cases p) simp

lemmas wp_simps =
  wp_ok wp_raise wp_lift wp_getattr wp_setattr wp_call wp_bindE wp_if wp_case_prod


subsection \<open>clear_pending_task\<close>

lemma clear_when_empty:
  "self s ''task'' = Some PyNone \<Longrightarrow> clear_pending_task d s = (Inr (), s)"
  by (simp add: clear_pending_task_def prog_defs)

lemma clear_when_pending:
  assumes "is_instance s" and "self s ''task'' = Some (PyHandle h)"
  shows "clear_pending_task d s =
           (case DAQmxClearTask d (PyHandle h) of
              Inl e \<Rightarrow> (Inl e, s\<lparr>trace := trace s @ [C_ClearTask (PyHandle h)]\<rparr>)
            | Inr u \<Rightarrow> (Inr (), s\<lparr>trace := trace s @ [C_ClearTask (PyHandle h)],
                                 self := (self s)(''task'' \<mapsto> PyNone)\<rparr>))"
  using assms
  by (simp add: clear_pending_task_def prog_defs is_instance_def split: sum.split)

lemma clear_returns:
  assumes inst: "is_instance s"
    and clr: "\<And>h. self s ''task'' = Some (PyHandle h) \<Longrightarrow> DAQmxClearTask d (PyHandle h) = Inr ()"
  shows "\<exists>s1. clear_pending_task d s = (Inr (), s1) \<and> is_instance s1 \<and>
              self s1 ''task'' = Some PyNone"
proof (cases "self s ''task'' = Some PyNone")
  case True
  then show ?thesis using inst by (simp add: clear_when_empty)
next
  case False
  then obtain h where h: "self s ''task'' = Some (PyHandle h)"
    using inst by (auto simp: is_instance_def split: option.splits pyval.splits)
  show ?thesis
    using clear_when_pending [OF inst h, of d] clr [OF h] inst
    by (simp add: is_instance_def)
qed

lemma wp_clear_empty:
  "self s ''task'' = Some PyNone \<Longrightarrow> wp (clear_pending_task d) Q E s = Q () s"
  by (simp add: wp_def clear_when_empty)

lemma bindE_clear:
  "clear_pending_task d s = (Inr (), s1) \<Longrightarrow> bindE (clear_pending_task d) f s = f () s1"
  by (simp add: bindE_def)

text \<open>
  Once its first step has cleared the pending task, \<open>load_sample_values\<close> goes on as a call
  on an instance with no pending task does.
\<close>

lemma load_after_clear:
  assumes c: "clear_pending_task d s = (Inr (), s1)" and e: "self s1 ''task'' = Some PyNone"
  shows "load_sample_values d f v s = load_sample_values d f v s1"
proof -
  have c1: "clear_pending_task d s1 = (Inr (), s1)" using e by (rule clear_when_empty)
  show ?thesis
    unfolding load_sample_values_def by (simp only: bindE_clear [OF c] bindE_clear [OF c1])
qed

subsection \<open>load_sample_values\<close>

lemma load_trace_grows:
  "\<exists>rest. trace (snd (load_sample_values d f v s)) = trace s @ rest"
proof -
  have "preserves (\<lambda>s'. \<exists>rest. trace s' = trace s @ rest) (load_sample_values d f v)"
    by (rule load_preserves) auto
  then show ?thesis by (simp add: preserves_def)
qed

text \<open>
  From an instance with no pending task, when registration and start return: an exception
  leaves the slot empty.
\<close>

lemma load_from_empty:
  assumes inst: "is_instance s" and empty: "self s ''task'' = Some PyNone"
    and reg: "\<And>t. DAQmxRegisterDoneEvent d t = Inr ()"
    and st: "\<And>t. StartTask d t = Inr ()"
  shows "wp (load_sample_values d f v) (\<lambda>_ _. True) (\<lambda>_ s'. self s' ''task'' = Some PyNone) s"
  using inst empty unfolding load_sample_values_def Let_def
  by (simp add: wp_simps wp_clear_empty is_instance_def reg st
         split: sum.split option.split prod.split)

text \<open>
  From an instance with no pending task, whatever the library answers: a call that returns
  has stored the handle of the task it created, a call that raises has stored that handle
  or nothing.
\<close>

lemma load_slot_from_empty:
  assumes inst: "is_instance s" and empty: "self s ''task'' = Some PyNone"
  shows "wp (load_sample_values d f v)
           (\<lambda>_ s'. \<exists>t. Task d = Inr t \<and> self s' ''task'' = Some (PyHandle t))
           (\<lambda>_ s'. self s' ''task'' = Some PyNone \<or>
                    (\<exists>t. Task d = Inr t \<and> self s' ''task'' = Some (PyHandle t))) s"
proof -
  obtain ch ck where a: "self s ''daq'' = Some PyModule"
    "self s ''channels'' = Some (PyBytes ch)" "self s ''clock'' = Some (PyBytes ck)"
    using inst by (rule is_instanceD)
  show ?thesis
    using empty a unfolding load_sample_values_def Let_def
    by (simp add: wp_simps wp_clear_empty split: sum.split prod.split)
qed

lemma load_slot:
  assumes inst: "is_instance s" and clr: "\<And>x. DAQmxClearTask d x = Inr ()"
  shows "(self (snd (load_sample_values d f v s)) ''task'' = Some PyNone \<or>
          (\<exists>t. Task d = Inr t \<and>
               self (snd (load_sample_values d f v s)) ''task'' = Some (PyHandle t))) \<and>
         (fst (load_sample_values d f v s) = Inr () \<longrightarrow>
          (\<exists>t. Task d = Inr t \<and>
               self (snd (load_sample_values d f v s)) ''task'' = Some (PyHandle t))) \<and>
         (\<forall>h. self s ''task'' = Some (PyHandle h) \<longrightarrow>
              (\<exists>rest. trace (snd (load_sample_values d f v s)) =
                        trace s @ C_ClearTask (PyHandle h) # rest))"
proof -
  obtain s1 where c: "clear_pending_task d s = (Inr (), s1)" and i1: "is_instance s1"
    and e1: "self s1 ''task'' = Some PyNone"
    using clear_returns [OF inst, of d] clr by blast
  have eq: "load_sample_values d f v s = load_sample_values d f v s1"
    using c e1 by (rule load_after_clear)
  have w: "wp (load_sample_values d f v)
           (\<lambda>_ s'. \<exists>t. Task d = Inr t \<and> self s' ''task'' = Some (PyHandle t))
           (\<lambda>_ s'. self s' ''task'' = Some PyNone \<or>
                    (\<exists>t. Task d = Inr t \<and> self s' ''task'' = Some (PyHandle t))) s1"
    using i1 e1 by (rule load_slot_from_empty)
  have slot: "(self (snd (load_sample_values d f v s1)) ''task'' = Some PyNone \<or>
          (\<exists>t. Task d = Inr t \<and>
               self (snd (load_sample_values d f v s1)) ''task'' = Some (PyHandle t))) \<and>
         (fst (load_sample_values d f v s1) = Inr () \<longrightarrow>
          (\<exists>t. Task d = Inr t \<and>
               self (snd (load_sample_values d f v s1)) ''task'' = Some (PyHandle t)))"
    using w by (cases "load_sample_values d f v s1") (auto simp: wp_def split: sum.splits)
  have tr: "\<exists>rest. trace (snd (load_sample_values d f v s1)) =
                        trace s @ C_ClearTask (PyHandle h) # rest"
    if h: "self s ''task'' = Some (PyHandle h)" for h
  proof -
    have "s1 = s\<lparr>trace := trace s @ [C_ClearTask (PyHandle h)],
                 self := (self s)(''task'' \<mapsto> PyNone)\<rparr>"
      using clear_when_pending [OF inst h, of d] clr [of "PyHandle h"] c by simp
    then have "trace s1 = trace s @ [C_ClearTask (PyHandle h)]" by simp
    then show ?thesis using load_trace_grows [of d f v s1] by auto
  qed
  show ?thesis unfolding eq using slot tr by blast
qed

text \<open>
  On a working device (\<open>PyDAQmx t k\<close> with \<open>k \<ge> 1\<close>) and a non-empty buffer the call always
  raises: \<open>InvalidBufferSize\<close>, after clearing the task it created, when the length is not
  a multiple of \<open>k\<close>; \<open>TypeError\<close> at line 100 when it is. Either way the slot is empty.
\<close>

lemma load_on_PyDAQmx_from_empty:
  assumes inst: "is_instance s" and empty: "self s ''task'' = Some PyNone"
    and ne: "v \<noteq> []" and k: "1 \<le> k"
  shows "wp (load_sample_values (PyDAQmx t k) f v) (\<lambda>_ _. False)
           (\<lambda>e s'. e = (if int (length v) mod k = 0 then TypeError else InvalidBufferSize k) \<and>
                    self s' ''task'' = Some PyNone \<and>
                    (int (length v) mod k \<noteq> 0 \<longrightarrow> last (trace s') = C_ClearTask (PyHandle t))) s"
proof -
  have "0 \<le> int (length v) mod k" using k by simp
  then have pos: "0 < int (length v) mod k \<longleftrightarrow> int (length v) mod k \<noteq> 0" by linarith
  have k0: "k \<noteq> 0" using k by simp
  obtain lo hi where lo: "py_min v = Inr lo" and hi: "py_max v = Inr hi"
    using ne by (cases v) (auto simp: py_min_def py_max_def)
  obtain ch ck where a: "self s ''daq'' = Some PyModule"
    "self s ''channels'' = Some (PyBytes ch)" "self s ''clock'' = Some (PyBytes ck)"
    using inst by (rule is_instanceD)
  show ?thesis
    using empty a k0 unfolding load_sample_values_def Let_def
    by (simp add: wp_simps wp_clear_empty PyDAQmx_def lo hi
          py_mod_def int_floordiv_int32_def pos)
qed

lemma load_on_PyDAQmx:
  assumes inst: "is_instance s" and ne: "v \<noteq> []" and k: "1 \<le> k"
  shows "fst (load_sample_values (PyDAQmx t k) f v s) =
           Inl (if int (length v) mod k = 0 then TypeError else InvalidBufferSize k) \<and>
         self (snd (load_sample_values (PyDAQmx t k) f v s)) ''task'' = Some PyNone \<and>
         (int (length v) mod k \<noteq> 0 \<longrightarrow>
            last (trace (snd (load_sample_values (PyDAQmx t k) f v s))) = C_ClearTask (PyHandle t))"
proof -
  obtain s1 where c: "clear_pending_task (PyDAQmx t k) s = (Inr (), s1)" and i1: "is_instance s1"
    and e1: "self s1 ''task'' = Some PyNone"
    using clear_returns [OF inst, of "PyDAQmx t k"] by (auto simp: PyDAQmx_def)
  have eq: "load_sample_values (PyDAQmx t k) f v s = load_sample_values (PyDAQmx t k) f v s1"
    using c e1 by (rule load_after_clear)
  show ?thesis
    using load_on_PyDAQmx_from_empty [OF i1 e1 ne k, of t f] unfolding eq
    by (cases "load_sample_values (PyDAQmx t k) f v s1") (auto simp: wp_def split: sum.splits)
qed

subsection \<open>The completion handler\<close>




text \<open>
  On an instance that holds the handle object of task 7: the \<open>int\<close> 7 is ignored; the
  object itself, passed by a direct call, takes the branch of line 48, and
  \<open>clear_pending_task\<close> calls \<open>DAQmxClearTask\<close> before it empties the slot.
\<close>

lemma delivered_notification_on_armed_task:
  "done_callback_py (PyDAQmx 1 2) (delivered 7) 0 PyNone (armed 7) = (Inr (), armed 7)"
  by (simp add: eval_defs)

lemma done_callback_same_object:
  "done_callback_py (PyDAQmx 1 2) (PyHandle 7) 0 PyNone (armed 7) =
     (Inr (), (armed 7)\<lparr>trace := [C_ClearTask (PyHandle 7)],
                         self := (self (armed 7))(''task'' \<mapsto> PyNone)\<rparr>)"
  by (simp add: eval_defs)

subsection \<open>The driver on the library's own int32\<close>






lemma reachable_real_reachable: "reachable_real s \<Longrightarrow> reachable s"
  by (induction rule: reachable_real.induct) (auto intro: reachable.intros)


subsection \<open>Past line 100\<close>

text \<open>
  What the statements after line 100 do, on a library whose \<open>int32\<close> lets the division
  return, or from an instance that holds a task. The first step empties the slot after
  \<open>DAQmxClearTask\<close> has returned (lines 126-127): a clear that raises leaves the previous
  task in it. Line 118 fills the slot before the done event is registered and the task
  started: an error of one of these two calls leaves the new task in it.
\<close>

lemma failed_clear_keeps_previous_task:
  "fst (load_sample_values ((PyDAQmx 1 2)\<lparr>DAQmxClearTask := \<lambda>_. Inl (DAQError (- 200088))\<rparr>)
          1000 [1, 2, 3, 4] (armed 7)) = Inl (DAQError (- 200088)) \<and>
   self (snd (load_sample_values ((PyDAQmx 1 2)\<lparr>DAQmxClearTask := \<lambda>_. Inl (DAQError (- 200088))\<rparr>)
          1000 [1, 2, 3, 4] (armed 7))) ''task'' = Some (PyHandle 7)"
  by (simp add: eval_defs)

lemma failed_start_keeps_new_task:
  "fst (load_sample_values ((daq_with_floordiv 1 2)\<lparr>StartTask := \<lambda>_. Inl (DAQError (- 50103))\<rparr>)
          1000 [1, 2, 3, 4] (fresh ''Dev1/ao0:1'')) = Inl (DAQError (- 50103)) \<and>
   self (snd (load_sample_values ((daq_with_floordiv 1 2)\<lparr>StartTask := \<lambda>_. Inl (DAQError (- 50103))\<rparr>)
          1000 [1, 2, 3, 4] (fresh ''Dev1/ao0:1''))) ''task'' = Some (PyHandle 1)"
  by (simp add: eval_defs)

section \<open>Claims\<close>

subsection \<open>C1: load_sample_values succeeds exactly when the length is a multiple of the channel count\<close>

text \<open>
  Claim C1: for every channel count \<open>k \<ge> 1\<close> and every non-empty sample sequence of
  length \<open>n\<close>, \<open>load_sample_values\<close> succeeds exactly when \<open>k\<close> divides \<open>n\<close>, and
  otherwise fails with \<open>InvalidBufferSize\<close>, the task it created destroyed first and no
  task left active.

  The code rejects a length that is not a multiple (lemma \<open>load_on_PyDAQmx\<close>), but it does
  not succeed on one that is: line 100 divides by the \<open>int32\<close> object \<open>channel_number\<close>
  where lines 95 and 99 read \<open>channel_number.value\<close>, and Python raises \<open>TypeError\<close>.
  With 3 channels and 6 samples on a working device the call raises \<open>TypeError\<close> after
  creating the task and asking for its channel count; the clock is never configured and
  nothing is written.
\<close>

theorem divisible_buffer_raises_TypeError:
  "load_sample_values (PyDAQmx 5 3) 2000 [0, 1, 2, 3, 4, 5] (fresh ''Dev1/ao0:2'') =
     (Inl TypeError,
      (fresh ''Dev1/ao0:2'')\<lparr>trace := [C_Task,
                                    C_CreateAOVoltageChan 5 (PyBytes ''Dev1/ao0:2'') 0 5,
                                    C_GetTaskNumChans 5]\<rparr>)"
  by (simp add: eval_defs)

subsection \<open>C2: one task after two calls\<close>

text \<open>
  Claim C2: at any instant at most one task is active on a controller, every call of
  \<open>load_sample_values\<close> clearing the pending task before it creates and arms a new one, so
  that after any two successive calls exactly one task is active.

  The controller has one slot and the call clears it first (lemma \<open>load_slot\<close>), but no
  call arms a task: on a working device two calls with buffers the device accepts (2
  channels, 4 samples, then 2 samples) each raise \<open>TypeError\<close> at line 100 (see C1),
  before line 118 stores the task, and no task is active after them. With the library's
  \<open>int32\<close> the slot is empty after every call (lemmas \<open>real_load_never_arms\<close> and
  \<open>reachable_real_slot\<close>).
\<close>

theorem two_valid_loads_leave_no_task:
  "fst (load_sample_values (PyDAQmx 1 2) 1000 [1, 2, 3, 4] (fresh ''Dev1/ao0:1'')) = Inl TypeError \<and>
   fst (load_sample_values (PyDAQmx 2 2) 500 [5, 6]
         (snd (load_sample_values (PyDAQmx 1 2) 1000 [1, 2, 3, 4] (fresh ''Dev1/ao0:1''))))
     = Inl TypeError \<and>
   self (snd (load_sample_values (PyDAQmx 2 2) 500 [5, 6]
         (snd (load_sample_values (PyDAQmx 1 2) 1000 [1, 2, 3, 4] (fresh ''Dev1/ao0:1'')))))
      ''task'' = Some PyNone"
  by (simp add: eval_defs)

subsection \<open>C3: the completion handler and the controller's reference\<close>



subsection \<open>C4: the stand-in has the controller's signatures\<close>

text \<open>
  Claim C4: \<open>DAQmxSim\<close> exposes \<open>load_sample_values\<close>, \<open>close\<close> and \<open>ping\<close> with the
  signatures of \<open>DAQmx\<close>, \<open>load_sample_values\<close> taking a sampling frequency and a value
  sequence, and every call succeeds.

  \<open>DAQmxSim.load_sample_values\<close> has the one parameter \<open>values\<close> (line 8) where
  \<open>DAQmx.load_sample_values\<close> has \<open>sampling_freq\<close> and \<open>values\<close> (line 58): called as the
  controller's method is called, the stand-in raises \<open>TypeError\<close>.
\<close>

theorem sim_load_sample_values_rejects_frequency:
  "DAQmxSim_load_sample_values [ArgNum 1000, ArgSeq [1, 2, 3, 4]] = Inl TypeError"
  by (simp add: DAQmxSim_load_sample_values_def bind_positional_def)

lemma sim_other_calls:
  "DAQmxSim_load_sample_values [ArgSeq vs] = Inr RNone"
  "DAQmxSim_close [] = Inr RNone"
  "DAQmxSim_ping [] = Inr (RBool True)"
  by (simp_all add: DAQmxSim_load_sample_values_def DAQmxSim_close_def DAQmxSim_ping_def
        bind_positional_def)

subsection \<open>C5: a notification for another task changes nothing\<close>

text \<open>
  Claim C5: a done-notification whose identity is not that of the current task leaves the
  state of the controller unchanged. The handler returns, the attributes and the trace of
  library calls are what they were.
\<close>

theorem stale_done_notification_noop:
  assumes "self s ''task'' = Some task" and "taskhandle \<noteq> task"
  shows "done_callback_py d taskhandle status callback_data s = (Inr (), s)"
  using assms by (simp add: done_callback_py_def prog_defs py_eq_iff)

theorem stale_done_notification_noop_witness:
  "self (armed 7) ''task'' = Some (PyHandle 7) \<and> PyHandle 3 \<noteq> PyHandle 7 \<and>
   done_callback_py (PyDAQmx 1 2) (PyHandle 3) 0 PyNone (armed 7) = (Inr (), armed 7)"
proof -
  have h1: "self (armed 7) ''task'' = Some (PyHandle 7)" by (simp add: armed_def)
  have h2: "PyHandle 3 \<noteq> PyHandle 7" by simp
  show ?thesis
    using h1 h2 stale_done_notification_noop [OF h1 h2, of "PyDAQmx 1 2" 0 PyNone] by blast
qed

subsection \<open>C6: a matching notification, delivered twice\<close>



subsection \<open>C7: ping on a controller bound to hardware\<close>

text \<open>
  Claim C7: on a \<open>DAQmx\<close> instance every call of \<open>ping()\<close> returns \<open>False\<close>: the query
  reads \<open>self.device\<close>, which neither the constructor nor any method assigns, so the
  attribute lookup raises and the handler returns \<open>False\<close>. The library is never asked:
  the state, trace included, is unchanged.
\<close>

theorem ping_always_False: "reachable s \<Longrightarrow> ping d s = (Inr False, s)"
proof -
  assume r: "reachable s"
  have nd: "self s ''device'' = None" using r by (rule reachable_no_device)
  have "self s ''daq'' = Some PyModule"
    using reachable_instance [OF r] by (simp add: is_instance_def)
  with nd show ?thesis
    by (simp add: ping_def ping_query_def prog_defs)
qed

theorem ping_always_False_witness:
  "reachable (snd (load_sample_values (PyDAQmx 1 2) 1000 [1, 2, 3, 4] (fresh ''Dev1/ao0:1''))) \<and>
   ping (PyDAQmx 1 2)
     (snd (load_sample_values (PyDAQmx 1 2) 1000 [1, 2, 3, 4] (fresh ''Dev1/ao0:1''))) =
   (Inr False, snd (load_sample_values (PyDAQmx 1 2) 1000 [1, 2, 3, 4] (fresh ''Dev1/ao0:1'')))"
proof -
  have "reachable (fresh ''Dev1/ao0:1'')" using init_fresh by (rule reachable.r_init)
  then have r: "reachable (snd (load_sample_values (PyDAQmx 1 2) 1000 [1, 2, 3, 4]
                  (fresh ''Dev1/ao0:1'')))"
    by (rule reachable.r_load)
  show ?thesis using r ping_always_False [OF r] by blast
qed

subsection \<open>C8: two channels, four samples\<close>

text \<open>
  Claim C8: with 2 channels, \<open>values = [1.0, 2.0, 3.0, 4.0]\<close> and frequency 1000 the call
  succeeds, with 2 samples per channel and the voltage range \<open>[1.0, 4.0]\<close> passed to the
  channel creation.

  The range is the one the code passes, but the call does not succeed: line 100 raises
  \<open>TypeError\<close> (see C1), so no clock is configured with 2 samples per channel, nothing is
  written and no task is started. Lemma \<open>scenario_two_channels_with_floordiv\<close> shows the
  rest of the method doing what the claim says once the division returns.
\<close>

theorem scenario_two_channels_raises_TypeError:
  "load_sample_values (PyDAQmx 1 2) 1000 [1, 2, 3, 4] (fresh ''Dev1/ao0:1'') =
     (Inl TypeError,
      (fresh ''Dev1/ao0:1'')\<lparr>trace := [C_Task,
                                    C_CreateAOVoltageChan 1 (PyBytes ''Dev1/ao0:1'') 1 4,
                                    C_GetTaskNumChans 1]\<rparr>)"
  by (simp add: eval_defs)

lemma scenario_two_channels_with_floordiv:
  "load_sample_values (daq_with_floordiv 1 2) 1000 [1, 2, 3, 4] (fresh ''Dev1/ao0:1'') =
     (Inr (),
      \<lparr>self = [''channels'' \<mapsto> PyBytes ''Dev1/ao0:1'', ''clock'' \<mapsto> PyBytes ''PFI5'',
               ''task'' \<mapsto> PyHandle 1, ''daq'' \<mapsto> PyModule],
       trace = [C_Task, C_CreateAOVoltageChan 1 (PyBytes ''Dev1/ao0:1'') 1 4,
                C_GetTaskNumChans 1, C_CfgSampClkTiming 1 (PyBytes ''PFI5'') 1000 2,
                C_WriteAnalogF64 1 2 [1, 2, 3, 4], C_RegisterDoneEvent 1, C_StartTask 1]\<rparr>)"
  by (simp add: eval_defs fun_upd_twist)

subsection \<open>C9: ping never raises\<close>

text \<open>
  Claim C9: \<open>ping()\<close> never raises: whatever fails in the identity query, the failure is
  caught and the result is \<open>False\<close>, and the result is \<open>True\<close> only when the query
  completes without error. The query completes exactly when the attributes \<open>daq\<close> and
  \<open>device\<close> exist and the library call returns.
\<close>

theorem ping_never_raises:
  "(\<exists>b. fst (ping d s) = Inr b) \<and>
   (fst (ping d s) = Inr True \<longleftrightarrow> fst (ping_query d s) = Inr ()) \<and>
   (fst (ping_query d s) = Inr () \<longleftrightarrow>
      (\<exists>m device. self s ''daq'' = Some m \<and> self s ''device'' = Some device \<and>
                   DAQmxGetDevSerialNum d device = Inr ()))"
  by (auto simp: ping_def ping_query_def prog_defs split: prod.splits sum.splits option.splits)

subsection \<open>C10: an error exit leaves no active task\<close>



end
